theory Spec2Isabelle
  imports Main
begin

section \<open>Conference registration backend: data model\<close>

text \<open>
  The embedding follows \<^verbatim>\<open>src/backend/server.py\<close>. A Python \<^verbatim>\<open>str\<close> is a \<open>string\<close>: the
  bytes of its code points in UTF-8, a surrogate code point (U+D800 to U+DFFF, which a
  Python \<^verbatim>\<open>str\<close> may hold on its own) written as the three bytes the UTF-8 scheme gives
  it, \<open>0xED\<close> followed by a byte from \<open>0xA0\<close> to \<open>0xBF\<close> and one more. Python integers
  are \<open>int\<close>, \<open>Optional[str]\<close> is \<open>string option\<close>. A timestamp is the number of
  microseconds since the epoch, in UTC.
\<close>

datatype datetime = Datetime (timestamp_us: int)

text \<open>\<^verbatim>\<open>class RegistrationCreate(BaseModel)\<close>: the request body of \<^verbatim>\<open>POST /registration\<close>.\<close>

record registration_create =
  full_name :: string
  email :: string
  phone :: string
  category :: string
  organization :: "string option"
  designation :: "string option"
  address :: "string option"
  accommodation_required :: bool
  room_type :: "string option"
  check_in_date :: "string option"
  check_out_date :: "string option"

text \<open>
  \<^verbatim>\<open>class Registration(BaseModel)\<close>. It repeats the fields of \<^verbatim>\<open>RegistrationCreate\<close> and adds
  six. The type of \<open>created_at\<close> is a parameter: the model object holds a \<open>datetime\<close>, the
  stored document holds its ISO text (\<^verbatim>\<open>doc['created_at'].isoformat()\<close>). The field
  \<^verbatim>\<open>id\<close> is named \<open>reg_id\<close> here.
\<close>

record 't registration = registration_create +
  reg_id :: string
  amount :: int
  payment_status :: string
  order_id :: "string option"
  payment_id :: "string option"
  created_at :: 't

type_synonym doc = "string registration"

text \<open>\<^verbatim>\<open>class OrderCreate(BaseModel)\<close> and \<^verbatim>\<open>class PaymentVerification(BaseModel)\<close>.\<close>

datatype order_create =
  OrderCreate (oc_amount: int) (oc_currency: string) (oc_registration_id: string)

datatype payment_verification =
  PaymentVerification (razorpay_order_id: string) (razorpay_payment_id: string)
    (razorpay_signature: string) (pv_registration_id: string)

text \<open>
  The dictionary handed to \<^verbatim>\<open>razorpay_client.order.create\<close> and the order the gateway
  answers with (the handler reads its \<^verbatim>\<open>id\<close>, \<^verbatim>\<open>amount\<close> and \<^verbatim>\<open>currency\<close>).
\<close>

datatype order_request =
  OrderRequest (req_amount: int) (req_currency: string) (req_payment_capture: int)
    (req_notes_registration_id: string)

datatype gateway_order =
  GatewayOrder (order_ident: string) (order_amount: int) (order_currency: string)

text \<open>The JSON object \<^verbatim>\<open>create_order\<close> returns.\<close>

datatype order_response =
  OrderResponse (resp_order_id: string) (resp_amount: int) (resp_currency: string)
    (resp_key_id: string)

text \<open>
  Exceptions. \<open>HTTPException\<close> is FastAPI's, with its status code and detail;
  \<open>PyMongoError\<close> stands for whatever the database driver raises when a call fails, and
  \<open>ValueError\<close> for \<^verbatim>\<open>datetime.fromisoformat\<close> refusing its argument.
\<close>

datatype exn =
  HTTPException (status_code: nat) (detail: string)
| PyMongoError
| ValueError

text \<open>
  What the module takes from outside the repository: the two environment variables, the
  standard library's HMAC and ISO date functions, the gateway's \<^verbatim>\<open>order.create\<close>
  (\<open>None\<close> when the call raises) and whether the database answers.
  \<open>hmac_sha256_hexdigest env key msg\<close> is \<^verbatim>\<open>hmac.new(key, msg, hashlib.sha256).hexdigest()\<close>
  on the encoded key and message.
\<close>

record env =
  razorpay_key_id :: string
  razorpay_key_secret :: string
  hmac_sha256_hexdigest :: "string \<Rightarrow> string \<Rightarrow> string"
  order_create :: "order_request \<Rightarrow> gateway_order option"
  store_reachable :: bool
  isoformat :: "datetime \<Rightarrow> string"
  fromisoformat :: "string \<Rightarrow> datetime option"

text \<open>
  \<^verbatim>\<open>razorpay_client\<close> is built at start-up only when both credentials are non-empty and is
  \<^verbatim>\<open>None\<close> otherwise; the client is its credential pair.
\<close>

definition razorpay_client :: "env \<Rightarrow> (string \<times> string) option" where
  "razorpay_client e =
     (if razorpay_key_id e \<noteq> [] \<and> razorpay_key_secret e \<noteq> []
      then Some (razorpay_key_id e, razorpay_key_secret e) else None)"

text \<open>
  \<^verbatim>\<open>str.encode()\<close>: the UTF-8 bytes of the string, or \<open>None\<close> for the
  \<^verbatim>\<open>UnicodeEncodeError\<close> it raises when the string holds a surrogate code point.
\<close>

fun has_surrogate :: "string \<Rightarrow> bool" where
  "has_surrogate (a # b # cs) =
     ((of_char a = (0xED :: nat) \<and> (0xA0 :: nat) \<le> of_char b \<and> of_char b \<le> (0xBF :: nat))
      \<or> has_surrogate (b # cs))"
| "has_surrogate cs = False"

definition encode :: "string \<Rightarrow> string option" where
  "encode txt = (if has_surrogate txt then None else Some txt)"

text \<open>
  The signature that \<^verbatim>\<open>verify_payment\<close> computes for a message,
  \<^verbatim>\<open>hmac.new(razorpay_key_secret.encode(), message.encode(), hashlib.sha256).hexdigest()\<close>;
  \<open>None\<close> when one of the two \<^verbatim>\<open>encode()\<close> calls raises.
\<close>

definition generated_signature :: "env \<Rightarrow> string \<Rightarrow> string option" where
  "generated_signature e message =
     (case encode (razorpay_key_secret e) of
        None \<Rightarrow> None
      | Some key \<Rightarrow>
          (case encode message of
             None \<Rightarrow> None
           | Some msg \<Rightarrow> Some (hmac_sha256_hexdigest e key msg)))"

section \<open>Pricing tables\<close>

definition PRICING :: "(string \<times> int) list" where
  "PRICING =
    [(''delegate_early_bird'', 12000),
     (''delegate_regular'', 15000),
     (''delegate_late'', 18000),
     (''student_early_bird'', 6000),
     (''student_regular'', 8000),
     (''student_late'', 10000),
     (''accompanying_person'', 5000),
     (''workshop_only'', 3000)]"

definition ROOM_PRICING :: "(string \<times> int) list" where
  "ROOM_PRICING =
    [(''standard'', 6000),
     (''deluxe'', 8000),
     (''suite'', 12000)]"

text \<open>\<^verbatim>\<open>d.get(k, default)\<close> on a dictionary literal.\<close>

definition dict_get :: "(string \<times> int) list \<Rightarrow> string \<Rightarrow> int \<Rightarrow> int" where
  "dict_get d k dflt = (case map_of d k of None \<Rightarrow> dflt | Some v \<Rightarrow> v)"

section \<open>The registrations collection\<close>

text \<open>
  \<^verbatim>\<open>db.registrations\<close>: the documents in insertion order. The collection has no unique
  index on \<^verbatim>\<open>id\<close>, so \<^verbatim>\<open>find_one\<close> and \<^verbatim>\<open>update_one\<close> act on the first match. Every call
  raises when the database does not answer.
\<close>

type_synonym db = "doc list"

definition insert_one :: "env \<Rightarrow> doc \<Rightarrow> db \<Rightarrow> exn + db" where
  "insert_one e d s = (if store_reachable e then Inr (s @ [d]) else Inl PyMongoError)"

definition find_one :: "env \<Rightarrow> string \<Rightarrow> db \<Rightarrow> exn + doc option" where
  "find_one e rid s =
     (if store_reachable e then Inr (find (\<lambda>d. reg_id d = rid) s) else Inl PyMongoError)"

fun update_first :: "string \<Rightarrow> (doc \<Rightarrow> doc) \<Rightarrow> db \<Rightarrow> db" where
  "update_first rid f [] = []"
| "update_first rid f (d # ds) =
     (if reg_id d = rid then f d # ds else d # update_first rid f ds)"

definition update_one :: "env \<Rightarrow> string \<Rightarrow> (doc \<Rightarrow> doc) \<Rightarrow> db \<Rightarrow> exn + db" where
  "update_one e rid f s =
     (if store_reachable e then Inr (update_first rid f s) else Inl PyMongoError)"

definition find_all :: "env \<Rightarrow> nat \<Rightarrow> db \<Rightarrow> exn + doc list" where
  "find_all e n s = (if store_reachable e then Inr (take n s) else Inl PyMongoError)"

section \<open>Routes\<close>

text \<open>
  A handler takes the collection and returns its answer (\<open>Inl\<close> the exception raised)
  with the collection as it leaves it.
\<close>

text \<open>
  \<^verbatim>\<open>Registration(**input_data.model_dump(), amount=...)\<close>: the input's fields, the given
  amount, the fresh identifier and timestamp of the default factories, and the defaults.
\<close>

definition Registration ::
    "registration_create \<Rightarrow> string \<Rightarrow> datetime \<Rightarrow> int \<Rightarrow> datetime registration" where
  "Registration inp new_id now amt =
     \<lparr>full_name = full_name inp, email = email inp, phone = phone inp,
      category = category inp, organization = organization inp,
      designation = designation inp, address = address inp,
      accommodation_required = accommodation_required inp, room_type = room_type inp,
      check_in_date = check_in_date inp, check_out_date = check_out_date inp,
      reg_id = new_id, amount = amt, payment_status = ''pending'',
      order_id = None, payment_id = None, created_at = now\<rparr>"

text \<open>A record with its \<open>created_at\<close> converted, every other field kept.\<close>

definition with_created_at :: "'b \<Rightarrow> 'a registration \<Rightarrow> 'b registration" where
  "with_created_at t r =
     \<lparr>full_name = full_name r, email = email r, phone = phone r,
      category = category r, organization = organization r,
      designation = designation r, address = address r,
      accommodation_required = accommodation_required r, room_type = room_type r,
      check_in_date = check_in_date r, check_out_date = check_out_date r,
      reg_id = reg_id r, amount = amount r, payment_status = payment_status r,
      order_id = order_id r, payment_id = payment_id r, created_at = t\<rparr>"

text \<open>The amount of \<^verbatim>\<open>create_registration\<close>, in rupees, before the conversion to paise.\<close>

definition calculate_amount :: "registration_create \<Rightarrow> int" where
  "calculate_amount inp =
     (let amount0 = dict_get PRICING (category inp) 0
      in case room_type inp of
           None \<Rightarrow> amount0
         | Some rt \<Rightarrow>
             if accommodation_required inp \<and> rt \<noteq> []
             then (let room_cost = dict_get ROOM_PRICING rt 0;
                       nights = 2
                   in amount0 + room_cost * nights)
             else amount0)"

definition create_registration ::
    "env \<Rightarrow> string \<Rightarrow> datetime \<Rightarrow> registration_create \<Rightarrow> db
       \<Rightarrow> (exn + datetime registration) \<times> db" where
  "create_registration e new_id now input_data s =
     (let registration = Registration input_data new_id now (calculate_amount input_data * 100);
          doc = with_created_at (isoformat e (created_at registration)) registration
      in case insert_one e doc s of
           Inl err \<Rightarrow> (Inl err, s)
         | Inr s' \<Rightarrow> (Inr registration, s'))"

definition get_registration ::
    "env \<Rightarrow> string \<Rightarrow> db \<Rightarrow> (exn + datetime registration) \<times> db" where
  "get_registration e registration_id s =
     (case find_one e registration_id s of
        Inl err \<Rightarrow> (Inl err, s)
      | Inr None \<Rightarrow> (Inl (HTTPException 404 ''Registration not found''), s)
      | Inr (Some doc) \<Rightarrow>
          (case fromisoformat e (created_at doc) of
             None \<Rightarrow> (Inl ValueError, s)
           | Some t \<Rightarrow> (Inr (with_created_at t doc), s)))"

definition order_request_of :: "order_create \<Rightarrow> order_request" where
  "order_request_of order_data =
     OrderRequest (oc_amount order_data) (oc_currency order_data) 1
       (oc_registration_id order_data)"

definition create_order :: "env \<Rightarrow> order_create \<Rightarrow> db \<Rightarrow> (exn + order_response) \<times> db" where
  "create_order e order_data s =
     (case razorpay_client e of
        None \<Rightarrow> (Inl (HTTPException 500 ''Payment gateway not configured''), s)
      | Some client \<Rightarrow>
          (case order_create e (order_request_of order_data) of
             None \<Rightarrow> (Inl (HTTPException 500 ''Failed to create payment order''), s)
           | Some order \<Rightarrow>
               (case update_one e (oc_registration_id order_data)
                       (\<lambda>d. d\<lparr>order_id := Some (order_ident order)\<rparr>) s of
                  Inl err \<Rightarrow> (Inl (HTTPException 500 ''Failed to create payment order''), s)
                | Inr s' \<Rightarrow>
                    (Inr (OrderResponse (order_ident order) (order_amount order)
                            (order_currency order) (razorpay_key_id e)), s'))))"

text \<open>
  \<^verbatim>\<open>verify_payment\<close>. The signature is computed inside the \<^verbatim>\<open>try\<close>: when an
  \<^verbatim>\<open>encode()\<close> raises, the handler answers as it does for any exception other than its
  own \<open>HTTPException\<close>, with status 500 and \<open>''Payment verification failed''\<close>.
\<close>

definition verify_payment ::
    "env \<Rightarrow> payment_verification \<Rightarrow> db \<Rightarrow> (exn + (string \<times> string) list) \<times> db" where
  "verify_payment e payment_data s =
     (case razorpay_client e of
        None \<Rightarrow> (Inl (HTTPException 500 ''Payment gateway not configured''), s)
      | Some client \<Rightarrow>
          (let message = razorpay_order_id payment_data @ ''|'' @ razorpay_payment_id payment_data
           in case generated_signature e message of
                None \<Rightarrow> (Inl (HTTPException 500 ''Payment verification failed''), s)
              | Some generated \<Rightarrow>
                  if generated \<noteq> razorpay_signature payment_data
                  then (Inl (HTTPException 400 ''Invalid payment signature''), s)
                  else (case update_one e (pv_registration_id payment_data)
                               (\<lambda>d. d\<lparr>payment_status := ''completed'',
                                      payment_id := Some (razorpay_payment_id payment_data)\<rparr>) s of
                          Inl err \<Rightarrow> (Inl (HTTPException 500 ''Payment verification failed''), s)
                        | Inr s' \<Rightarrow>
                            (Inr [(''status'', ''success''),
                                  (''message'', ''Payment verified successfully'')], s'))))"

text \<open>
  \<^verbatim>\<open>get_registrations\<close>: at most 1000 documents, each with its timestamp parsed.
\<close>

definition get_registrations ::
    "env \<Rightarrow> db \<Rightarrow> (exn + datetime registration list) \<times> db" where
  "get_registrations e s =
     (case find_all e 1000 s of
        Inl err \<Rightarrow> (Inl err, s)
      | Inr registrations \<Rightarrow>
          (case those (map (\<lambda>reg. map_option (\<lambda>t. with_created_at t reg)
                                   (fromisoformat e (created_at reg))) registrations) of
             None \<Rightarrow> (Inl ValueError, s)
           | Some regs \<Rightarrow> (Inr regs, s)))"

text \<open>
  The routes of \<^verbatim>\<open>api_router\<close> that touch the registrations collection, as requests, and
  the collection each leaves behind. \<open>PostRegistration\<close> carries the identifier and the
  timestamp that the default factories draw for it.
\<close>

datatype request =
  PostRegistration string datetime registration_create
| GetRegistration string
| PostCreateOrder order_create
| PostVerifyPayment payment_verification
| GetRegistrations

fun api_router :: "env \<Rightarrow> request \<Rightarrow> db \<Rightarrow> db" where
  "api_router e (PostRegistration new_id now input_data) s =
     snd (create_registration e new_id now input_data s)"
| "api_router e (GetRegistration registration_id) s = snd (get_registration e registration_id s)"
| "api_router e (PostCreateOrder order_data) s = snd (create_order e order_data s)"
| "api_router e (PostVerifyPayment payment_data) s = snd (verify_payment e payment_data s)"
| "api_router e GetRegistrations s = snd (get_registrations e s)"

section \<open>A concrete deployment\<close>

text \<open>
  HMAC-SHA256 digests, in lowercase hexadecimal, of three messages under the key
  \<open>''rzp_secret''\<close>; a gateway that answers every request with order \<open>''order_1''\<close> and
  echoes amount and currency; the timestamp 2026-01-15 10:30:00 UTC and its ISO text.
\<close>

definition known_digests :: "((string \<times> string) \<times> string) list" where
  "known_digests =
    [((''rzp_secret'', ''order_1|pay_1''),
      ''15e54fc994958b03e5d550900551f2224e4bc3f71ed65272552271e2d4c1b713''),
     ((''rzp_secret'', ''order_1|pay_2''),
      ''42b36d6ca2796f41479c0970a1439425646c6b772a81e05457de24c69b76a61f''),
     ((''rzp_secret'', ''order_9|pay_9''),
      ''6fa997925b043ff84e5958f82ac0fc1068d239bb2215a5ba3091384be45283b3'')]"

definition example_now :: datetime where
  "example_now = Datetime 1768473000000000"

definition example_env :: env where
  "example_env =
     \<lparr>razorpay_key_id = ''rzp_test_key'',
      razorpay_key_secret = ''rzp_secret'',
      hmac_sha256_hexdigest =
        (\<lambda>key msg. case map_of known_digests (key, msg) of None \<Rightarrow> [] | Some h \<Rightarrow> h),
      order_create =
        (\<lambda>req. Some (GatewayOrder ''order_1'' (req_amount req) (req_currency req))),
      store_reachable = True,
      isoformat = (\<lambda>t. ''2026-01-15T10:30:00+00:00''),
      fromisoformat =
        (\<lambda>txt. if txt = ''2026-01-15T10:30:00+00:00'' then Some example_now else None)\<rparr>"

definition example_input :: registration_create where
  "example_input =
     \<lparr>full_name = ''Dr. Test User'', email = ''test.doctor@example.com'',
      phone = ''+91 9876543210'', category = ''delegate_early_bird'',
      organization = Some ''Test Hospital'', designation = Some ''Consultant'',
      address = None, accommodation_required = False, room_type = None,
      check_in_date = None, check_out_date = None\<rparr>"

text \<open>The document that \<open>example_input\<close> is stored as, under the identifier \<open>''r1''\<close>.\<close>

definition example_doc :: doc where
  "example_doc =
     with_created_at ''2026-01-15T10:30:00+00:00''
       (Registration example_input ''r1'' example_now 1200000)"

text \<open>A second stored registration, \<open>''r2''\<close>, whose payment is already completed.\<close>

definition example_paid_doc :: doc where
  "example_paid_doc =
     example_doc\<lparr>reg_id := ''r2'', payment_status := ''completed'',
                  payment_id := Some ''pay_9''\<rparr>"

section \<open>Facts about the collection and the routes\<close>

lemma find_update_first:
  assumes "\<And>d. reg_id (f d) = reg_id d"
  shows "find (\<lambda>d. reg_id d = rid') (update_first rid f s) =
         (if rid' = rid then map_option f (find (\<lambda>d. reg_id d = rid) s)
          else find (\<lambda>d. reg_id d = rid') s)"
  using assms by (induction s) auto

lemma update_first_absent:
  "rid \<notin> reg_id ` set s \<Longrightarrow> update_first rid f s = s"
  by (induction s) auto

lemma length_update_first: "length (update_first rid f s) = length s"
  by (induction s) auto

lemma nth_update_first:
  "i < length s \<Longrightarrow>
     update_first rid f s ! i = s ! i \<or>
     (update_first rid f s ! i = f (s ! i) \<and> reg_id (s ! i) = rid)"
  by (induction s arbitrary: i) (auto simp: nth_Cons split: nat.splits)

lemma razorpay_client_Some:
  "razorpay_key_id e \<noteq> [] \<Longrightarrow> razorpay_key_secret e \<noteq> [] \<Longrightarrow>
     razorpay_client e = Some (razorpay_key_id e, razorpay_key_secret e)"
  by (simp add: razorpay_client_def)

lemma razorpay_client_None:
  "razorpay_key_id e = [] \<or> razorpay_key_secret e = [] \<Longrightarrow> razorpay_client e = None"
  by (auto simp: razorpay_client_def)

lemma generated_signature_Some:
  "generated_signature e message = Some sig \<longleftrightarrow>
     \<not> has_surrogate (razorpay_key_secret e) \<and> \<not> has_surrogate message
     \<and> sig = hmac_sha256_hexdigest e (razorpay_key_secret e) message"
  by (auto simp: generated_signature_def encode_def)

lemma generated_signature_None:
  "generated_signature e message = None \<longleftrightarrow>
     has_surrogate (razorpay_key_secret e) \<or> has_surrogate message"
  by (auto simp: generated_signature_def encode_def)

lemma verify_payment_mismatch:
  assumes "razorpay_client e \<noteq> None"
    and "generated_signature e (razorpay_order_id pd @ ''|'' @ razorpay_payment_id pd) =
           Some digest"
    and "razorpay_signature pd \<noteq> digest"
  shows "verify_payment e pd s = (Inl (HTTPException 400 ''Invalid payment signature''), s)"
  using assms by (auto simp: verify_payment_def Let_def)

text \<open>
  A request whose order or payment id cannot be encoded gets the answer of a failed
  verification, not that of a wrong signature; so does every request when the secret
  cannot be encoded.
\<close>

lemma verify_payment_unencodable:
  assumes "razorpay_client e \<noteq> None"
    and "generated_signature e (razorpay_order_id pd @ ''|'' @ razorpay_payment_id pd) = None"
  shows "verify_payment e pd s = (Inl (HTTPException 500 ''Payment verification failed''), s)"
  using assms by (auto simp: verify_payment_def Let_def)

text \<open>
  At the example deployment: an order id that ends in the lone surrogate U+D800.
\<close>

lemma verify_payment_surrogate_example:
  "verify_payment example_env
     (PaymentVerification (''order_'' @ [CHR 0xED, CHR 0xA0, CHR 0x80]) ''pay_1'' ''forged'' ''r1'')
     [example_doc] =
   (Inl (HTTPException 500 ''Payment verification failed''), [example_doc])"
  by (simp add: verify_payment_def razorpay_client_def generated_signature_def encode_def
        example_env_def)

lemma foldl_verify_mismatch:
  assumes "\<forall>pd \<in> set pds.
             generated_signature e (razorpay_order_id pd @ ''|'' @ razorpay_payment_id pd) \<noteq>
               Some (razorpay_signature pd)"
  shows "foldl (\<lambda>t pd. snd (verify_payment e pd t)) s pds = s"
  using assms
  by (induction pds arbitrary: s)
     (auto simp: verify_payment_def Let_def split: option.splits)

lemma fst_verify_payment:
  "fst (verify_payment e pd s) =
     (if razorpay_client e = None then Inl (HTTPException 500 ''Payment gateway not configured'')
      else case generated_signature e (razorpay_order_id pd @ ''|'' @ razorpay_payment_id pd) of
             None \<Rightarrow> Inl (HTTPException 500 ''Payment verification failed'')
           | Some generated \<Rightarrow>
               if generated \<noteq> razorpay_signature pd
               then Inl (HTTPException 400 ''Invalid payment signature'')
               else if store_reachable e
               then Inr [(''status'', ''success''),
                         (''message'', ''Payment verified successfully'')]
               else Inl (HTTPException 500 ''Payment verification failed''))"
  by (auto simp: verify_payment_def update_one_def Let_def split: option.splits)

lemmas example_defs =
  example_env_def known_digests_def example_doc_def example_input_def example_now_def
  with_created_at_def Registration_def

lemma fst_create_registration:
  "fst (create_registration e new_id now inp s) =
     (if store_reachable e then Inr (Registration inp new_id now (calculate_amount inp * 100))
      else Inl PyMongoError)"
  by (simp add: create_registration_def insert_one_def Let_def)

lemma snd_create_registration:
  "snd (create_registration e new_id now inp s) =
     (if store_reachable e
      then s @ [with_created_at (isoformat e now)
                  (Registration inp new_id now (calculate_amount inp * 100))]
      else s)"
  by (simp add: create_registration_def insert_one_def Let_def Registration_def)

lemma amount_Registration: "amount (Registration inp new_id now amt) = amt"
  by (simp add: Registration_def)

lemma find_append_fresh:
  "rid \<notin> reg_id ` set s \<Longrightarrow> reg_id d = rid \<Longrightarrow>
     find (\<lambda>d'. reg_id d' = rid) (s @ [d]) = Some d"
  by (induction s) auto

lemma with_created_at_roundtrip:
  "with_created_at now (with_created_at txt (Registration inp new_id now amt)) =
     Registration inp new_id now amt"
  by (simp add: with_created_at_def Registration_def)

lemma snd_verify_payment:
  "snd (verify_payment e pd s) =
     (if razorpay_client e \<noteq> None
         \<and> generated_signature e (razorpay_order_id pd @ ''|'' @ razorpay_payment_id pd) =
             Some (razorpay_signature pd)
         \<and> store_reachable e
      then update_first (pv_registration_id pd)
             (\<lambda>d. d\<lparr>payment_status := ''completed'',
                    payment_id := Some (razorpay_payment_id pd)\<rparr>) s
      else s)"
  by (auto simp: verify_payment_def update_one_def Let_def split: option.splits)

lemma snd_create_order:
  "snd (create_order e od s) = s \<or>
   (\<exists>oid. snd (create_order e od s) =
      update_first (oc_registration_id od) (\<lambda>d. d\<lparr>order_id := Some oid\<rparr>) s)"
  by (auto simp: create_order_def update_one_def split: option.splits)

lemma snd_get_registration: "snd (get_registration e rid s) = s"
  by (simp add: get_registration_def split: sum.splits option.splits)

lemma snd_get_registrations: "snd (get_registrations e s) = s"
  by (simp add: get_registrations_def split: sum.splits option.splits)

lemma length_api_router: "length s \<le> length (api_router e req s)"
proof (cases req)
  case (PostCreateOrder od)
  then show ?thesis
    using snd_create_order [of e od s] by (auto simp: length_update_first)
qed (simp_all add: snd_create_registration snd_get_registration snd_get_registrations
       snd_verify_payment length_update_first)

lemma api_router_nth:
  assumes "i < length s"
  shows "api_router e req s ! i = s ! i
       \<or> (\<exists>od oid. req = PostCreateOrder od \<and> api_router e req s ! i = (s ! i)\<lparr>order_id := Some oid\<rparr>)
       \<or> (\<exists>pd. req = PostVerifyPayment pd
             \<and> pv_registration_id pd = reg_id (s ! i)
             \<and> generated_signature e (razorpay_order_id pd @ ''|'' @ razorpay_payment_id pd) =
                   Some (razorpay_signature pd)
             \<and> fst (verify_payment e pd s) =
                 Inr [(''status'', ''success''), (''message'', ''Payment verified successfully'')]
             \<and> api_router e req s ! i =
                 (s ! i)\<lparr>payment_status := ''completed'',
                         payment_id := Some (razorpay_payment_id pd)\<rparr>)"
proof (cases req)
  case (PostRegistration new_id now inp)
  then show ?thesis using assms by (simp add: snd_create_registration nth_append)
next
  case (GetRegistration rid)
  then show ?thesis by (simp add: snd_get_registration)
next
  case (PostCreateOrder od)
  from snd_create_order [of e od s] show ?thesis
  proof
    assume "snd (create_order e od s) = s"
    then show ?thesis by (simp add: PostCreateOrder)
  next
    assume "\<exists>oid. snd (create_order e od s) =
      update_first (oc_registration_id od) (\<lambda>d. d\<lparr>order_id := Some oid\<rparr>) s"
    then obtain oid where st: "api_router e req s =
      update_first (oc_registration_id od) (\<lambda>d. d\<lparr>order_id := Some oid\<rparr>) s"
      by (auto simp: PostCreateOrder)
    from nth_update_first [OF assms, of "oc_registration_id od"
        "\<lambda>d. d\<lparr>order_id := Some oid\<rparr>"]
    have "api_router e req s ! i = s ! i
        \<or> api_router e req s ! i = (s ! i)\<lparr>order_id := Some oid\<rparr>"
      unfolding st by auto
    then show ?thesis using PostCreateOrder by blast
  qed
next
  case (PostVerifyPayment pd)
  show ?thesis
  proof (cases "razorpay_client e \<noteq> None
         \<and> generated_signature e (razorpay_order_id pd @ ''|'' @ razorpay_payment_id pd) =
                   Some (razorpay_signature pd)
         \<and> store_reachable e")
    case True
    then have ok: "fst (verify_payment e pd s) =
        Inr [(''status'', ''success''), (''message'', ''Payment verified successfully'')]"
      by (simp add: fst_verify_payment)
    from True have st: "api_router e req s =
        update_first (pv_registration_id pd)
             (\<lambda>d. d\<lparr>payment_status := ''completed'',
                    payment_id := Some (razorpay_payment_id pd)\<rparr>) s"
      by (simp add: PostVerifyPayment snd_verify_payment)
    from nth_update_first [OF assms, of "pv_registration_id pd"
          "\<lambda>d. d\<lparr>payment_status := ''completed'',
                    payment_id := Some (razorpay_payment_id pd)\<rparr>"]
    have "api_router e req s ! i = s ! i
        \<or> (api_router e req s ! i =
             (s ! i)\<lparr>payment_status := ''completed'',
                     payment_id := Some (razorpay_payment_id pd)\<rparr>
           \<and> pv_registration_id pd = reg_id (s ! i))"
      unfolding st by auto
    then show ?thesis using True ok PostVerifyPayment by blast
  next
    case False
    then show ?thesis by (auto simp: PostVerifyPayment snd_verify_payment)
  qed
next
  case GetRegistrations
  then show ?thesis by (simp add: snd_get_registrations)
qed

lemma api_router_amount:
  "i < length s \<Longrightarrow> amount (api_router e req s ! i) = amount (s ! i)"
  using api_router_nth [of i s e req] by auto

lemma api_router_completed:
  "i < length s \<Longrightarrow> payment_status (s ! i) = ''completed'' \<Longrightarrow>
     payment_status (api_router e req s ! i) = ''completed''"
  using api_router_nth [of i s e req] by auto

lemma length_run: "length s \<le> length (foldl (\<lambda>t (e', r). api_router e' r t) s steps)"
proof (induction steps arbitrary: s)
  case Nil
  then show ?case by simp
next
  case (Cons x xs)
  obtain e' r where x: "x = (e', r)" by (cases x)
  show ?case
    using Cons.IH [of "api_router e' r s"] length_api_router [of s e' r]
    by (simp add: x)
qed

lemma run_amount:
  "i < length s \<Longrightarrow> amount (foldl (\<lambda>t (e', r). api_router e' r t) s steps ! i) = amount (s ! i)"
proof (induction steps arbitrary: s)
  case Nil
  then show ?case by simp
next
  case (Cons x xs)
  obtain e' r where x: "x = (e', r)" by (cases x)
  have "i < length (api_router e' r s)"
    using Cons.prems length_api_router [of s e' r] by simp
  then show ?case
    using Cons.IH [of "api_router e' r s"] api_router_amount [OF Cons.prems, of e' r]
    by (simp add: x)
qed

lemma run_completed:
  "i < length s \<Longrightarrow> payment_status (s ! i) = ''completed'' \<Longrightarrow>
     payment_status (foldl (\<lambda>t (e', r). api_router e' r t) s steps ! i) = ''completed''"
proof (induction steps arbitrary: s)
  case Nil
  then show ?case by simp
next
  case (Cons x xs)
  obtain e' r where x: "x = (e', r)" by (cases x)
  have "i < length (api_router e' r s)"
    using Cons.prems length_api_router [of s e' r] by simp
  then show ?case
    using Cons.IH [of "api_router e' r s"] api_router_completed [OF Cons.prems, of e' r]
    by (simp add: x)
qed

lemma fst_create_order:
  "fst (create_order e od s) =
     (case razorpay_client e of
        None \<Rightarrow> Inl (HTTPException 500 ''Payment gateway not configured'')
      | Some client \<Rightarrow>
          (case order_create e (order_request_of od) of
             None \<Rightarrow> Inl (HTTPException 500 ''Failed to create payment order'')
           | Some order \<Rightarrow>
               if store_reachable e
               then Inr (OrderResponse (order_ident order) (order_amount order)
                           (order_currency order) (razorpay_key_id e))
               else Inl (HTTPException 500 ''Failed to create payment order'')))"
  by (simp add: create_order_def update_one_def split: option.splits)

text \<open>The amounts, in paise, of the eight categories without accommodation.\<close>

lemma pricing_amounts:
  "map (\<lambda>c. calculate_amount (example_input\<lparr>category := c\<rparr>) * 100) (map fst PRICING) =
     [1200000, 1500000, 1800000, 600000, 800000, 1000000, 500000, 300000]"
  by (simp add: calculate_amount_def dict_get_def PRICING_def example_input_def)

section \<open>The claims of the specification\<close>

text \<open>
Claim C1. With both gateway credentials configured and the database answering, a
  verification request whose signature is the HMAC-SHA256 hex digest, under the secret,
  of \<open>order_id @ ''|'' @ payment_id\<close> succeeds, and the registration found under the
  given identifier is afterwards the same document with \<open>payment_status\<close> set to
  \<open>''completed''\<close> and \<open>payment_id\<close> set to the payment id of the request.
\<close>

theorem verify_payment_valid_signature:
  assumes "razorpay_key_id e \<noteq> []" and "razorpay_key_secret e \<noteq> []"
    and "store_reachable e"
    and "generated_signature e (oid @ ''|'' @ pid) = Some sig"
    and "find (\<lambda>d. reg_id d = rid) s = Some d"
  shows "fst (verify_payment e (PaymentVerification oid pid sig rid) s) =
           Inr [(''status'', ''success''), (''message'', ''Payment verified successfully'')]
       \<and> find (\<lambda>d. reg_id d = rid) (snd (verify_payment e (PaymentVerification oid pid sig rid) s)) =
           Some (d\<lparr>payment_status := ''completed'', payment_id := Some pid\<rparr>)"
  using assms
  by (simp add: verify_payment_def razorpay_client_def update_one_def find_update_first)

text \<open>
The theorem at the example deployment: the stored registration \<open>''r1''\<close> and the
  digest of \<open>''order_1|pay_1''\<close>.
\<close>

theorem verify_payment_valid_signature_witness:
  "razorpay_key_id example_env \<noteq> [] \<and> razorpay_key_secret example_env \<noteq> []
   \<and> store_reachable example_env
   \<and> generated_signature example_env (''order_1'' @ ''|'' @ ''pay_1'') =
       Some ''15e54fc994958b03e5d550900551f2224e4bc3f71ed65272552271e2d4c1b713''
   \<and> find (\<lambda>d. reg_id d = ''r1'') [example_doc] = Some example_doc
   \<and> fst (verify_payment example_env
            (PaymentVerification ''order_1'' ''pay_1''
               ''15e54fc994958b03e5d550900551f2224e4bc3f71ed65272552271e2d4c1b713'' ''r1'')
            [example_doc]) =
         Inr [(''status'', ''success''), (''message'', ''Payment verified successfully'')]
   \<and> find (\<lambda>d. reg_id d = ''r1'')
         (snd (verify_payment example_env
            (PaymentVerification ''order_1'' ''pay_1''
               ''15e54fc994958b03e5d550900551f2224e4bc3f71ed65272552271e2d4c1b713'' ''r1'')
            [example_doc])) =
         Some (example_doc\<lparr>payment_status := ''completed'', payment_id := Some ''pay_1''\<rparr>)"
proof -
  have h1: "razorpay_key_id example_env \<noteq> []" by (simp add: example_env_def)
  have h2: "razorpay_key_secret example_env \<noteq> []" by (simp add: example_env_def)
  have h3: "store_reachable example_env" by (simp add: example_env_def)
  have h4: "generated_signature example_env (''order_1'' @ ''|'' @ ''pay_1'') =
       Some ''15e54fc994958b03e5d550900551f2224e4bc3f71ed65272552271e2d4c1b713''"
    by (simp add: generated_signature_def encode_def example_env_def known_digests_def)
  have h5: "find (\<lambda>d. reg_id d = ''r1'') [example_doc] = Some example_doc"
    by (simp add: example_doc_def with_created_at_def Registration_def)
  show ?thesis
    using h1 h2 h3 h4 h5 verify_payment_valid_signature [OF h1 h2 h3 h4 h5] by simp
qed

text \<open>
  Claim C2. With the gateway configured and the digest of the request's message computed
  (\<open>digest\<close>: the secret and the message encode), a request whose signature differs from
  the digest is answered with \<open>HTTPException 400 ''Invalid payment signature''\<close> and the
  collection is returned as it was, whether or not the database answers. This holds in
  particular for the digest with any one character replaced by a different one. Any
  sequence of requests none of which carries the signature computed for it leaves the
  collection unchanged. The exception differs from
  \<open>HTTPException 500 ''Payment verification failed''\<close>, which is what a correctly signed
  request gets when the database does not answer.
\<close>

theorem verify_payment_signature_mismatch:
  assumes "razorpay_key_id e \<noteq> []" and "razorpay_key_secret e \<noteq> []"
    and "generated_signature e (oid @ ''|'' @ pid) = Some digest"
  shows "(sig \<noteq> digest \<longrightarrow>
            verify_payment e (PaymentVerification oid pid sig rid) s =
              (Inl (HTTPException 400 ''Invalid payment signature''), s))
       \<and> (\<forall>i < length digest. \<forall>c. c \<noteq> digest ! i \<longrightarrow>
              verify_payment e (PaymentVerification oid pid (digest[i := c]) rid) s =
              (Inl (HTTPException 400 ''Invalid payment signature''), s))
       \<and> ((\<forall>pd \<in> set pds.
              generated_signature e (razorpay_order_id pd @ ''|'' @ razorpay_payment_id pd) \<noteq>
                Some (razorpay_signature pd)) \<longrightarrow>
            foldl (\<lambda>t pd. snd (verify_payment e pd t)) s pds = s)
       \<and> fst (verify_payment (e\<lparr>store_reachable := False\<rparr>)
                (PaymentVerification oid pid digest rid) s) =
            Inl (HTTPException 500 ''Payment verification failed'')
       \<and> HTTPException 400 ''Invalid payment signature'' \<noteq>
            HTTPException 500 ''Payment verification failed''"
proof -
  have cl: "razorpay_client e \<noteq> None"
    using assms by (simp add: razorpay_client_Some)
  have altered: "xs[i := c] \<noteq> xs" if "i < length xs" "c \<noteq> xs ! i" for xs :: string and i c
    using that by (metis nth_list_update_eq)
  have a: "sig \<noteq> digest \<longrightarrow>
            verify_payment e (PaymentVerification oid pid sig rid) s =
              (Inl (HTTPException 400 ''Invalid payment signature''), s)"
    using cl assms(3) by (simp add: verify_payment_mismatch)
  have b: "\<forall>i < length digest. \<forall>c. c \<noteq> digest ! i \<longrightarrow>
              verify_payment e (PaymentVerification oid pid (digest[i := c]) rid) s =
              (Inl (HTTPException 400 ''Invalid payment signature''), s)"
    using cl assms(3) altered by (simp add: verify_payment_mismatch)
  have c: "(\<forall>pd \<in> set pds.
              generated_signature e (razorpay_order_id pd @ ''|'' @ razorpay_payment_id pd) \<noteq>
                Some (razorpay_signature pd)) \<longrightarrow>
            foldl (\<lambda>t pd. snd (verify_payment e pd t)) s pds = s"
    by (simp add: foldl_verify_mismatch)
  have "generated_signature (e\<lparr>store_reachable := False\<rparr>) (oid @ ''|'' @ pid) = Some digest"
    using assms(3) by (simp add: generated_signature_def split: option.splits)
  then have d: "fst (verify_payment (e\<lparr>store_reachable := False\<rparr>)
                (PaymentVerification oid pid digest rid) s) =
            Inl (HTTPException 500 ''Payment verification failed'')"
    using assms(1,2) by (simp add: fst_verify_payment razorpay_client_def)
  show ?thesis using a b c d by simp
qed

text \<open>
  The theorem at the example deployment: a digest with its first character altered, the
  digest with its last character replaced, and three requests in a row that are not
  correctly signed, the last with an order id that cannot be encoded.
\<close>

theorem verify_payment_signature_mismatch_witness:
  "razorpay_key_id example_env \<noteq> [] \<and> razorpay_key_secret example_env \<noteq> []
   \<and> generated_signature example_env (''order_1'' @ ''|'' @ ''pay_1'') =
       Some ''15e54fc994958b03e5d550900551f2224e4bc3f71ed65272552271e2d4c1b713''
   \<and> ''25e54fc994958b03e5d550900551f2224e4bc3f71ed65272552271e2d4c1b713'' \<noteq>
       ''15e54fc994958b03e5d550900551f2224e4bc3f71ed65272552271e2d4c1b713''
   \<and> verify_payment example_env
        (PaymentVerification ''order_1'' ''pay_1''
           ''25e54fc994958b03e5d550900551f2224e4bc3f71ed65272552271e2d4c1b713'' ''r1'')
        [example_doc] =
       (Inl (HTTPException 400 ''Invalid payment signature''), [example_doc])
   \<and> (63::nat) < length ''15e54fc994958b03e5d550900551f2224e4bc3f71ed65272552271e2d4c1b713''
   \<and> CHR ''4'' \<noteq> ''15e54fc994958b03e5d550900551f2224e4bc3f71ed65272552271e2d4c1b713'' ! 63
   \<and> verify_payment example_env
        (PaymentVerification ''order_1'' ''pay_1''
           (''15e54fc994958b03e5d550900551f2224e4bc3f71ed65272552271e2d4c1b713''[63 := CHR ''4''])
           ''r1'')
        [example_doc] =
       (Inl (HTTPException 400 ''Invalid payment signature''), [example_doc])
   \<and> generated_signature example_env (''order_1'' @ ''|'' @ ''pay_1'') \<noteq> Some ''forged''
   \<and> generated_signature example_env (''order_1'' @ ''|'' @ ''pay_2'') \<noteq>
       Some ''15e54fc994958b03e5d550900551f2224e4bc3f71ed65272552271e2d4c1b713''
   \<and> generated_signature example_env
        ((''order_'' @ [CHR 0xED, CHR 0xA0, CHR 0x80]) @ ''|'' @ ''pay_1'') \<noteq> Some ''forged''
   \<and> foldl (\<lambda>t pd. snd (verify_payment example_env pd t)) [example_doc]
        [PaymentVerification ''order_1'' ''pay_1'' ''forged'' ''r1'',
         PaymentVerification ''order_1'' ''pay_2''
           ''15e54fc994958b03e5d550900551f2224e4bc3f71ed65272552271e2d4c1b713'' ''r1'',
         PaymentVerification (''order_'' @ [CHR 0xED, CHR 0xA0, CHR 0x80]) ''pay_1''
           ''forged'' ''r1''] =
       [example_doc]
   \<and> fst (verify_payment (example_env\<lparr>store_reachable := False\<rparr>)
        (PaymentVerification ''order_1'' ''pay_1''
           ''15e54fc994958b03e5d550900551f2224e4bc3f71ed65272552271e2d4c1b713'' ''r1'')
        [example_doc]) =
       Inl (HTTPException 500 ''Payment verification failed'')"
proof -
  let ?pds = "[PaymentVerification ''order_1'' ''pay_1'' ''forged'' ''r1'',
         PaymentVerification ''order_1'' ''pay_2''
           ''15e54fc994958b03e5d550900551f2224e4bc3f71ed65272552271e2d4c1b713'' ''r1'',
         PaymentVerification (''order_'' @ [CHR 0xED, CHR 0xA0, CHR 0x80]) ''pay_1''
           ''forged'' ''r1'']"
  have h1: "razorpay_key_id example_env \<noteq> []" by (simp add: example_env_def)
  have h2: "razorpay_key_secret example_env \<noteq> []" by (simp add: example_env_def)
  have h3: "generated_signature example_env (''order_1'' @ ''|'' @ ''pay_1'') =
       Some ''15e54fc994958b03e5d550900551f2224e4bc3f71ed65272552271e2d4c1b713''"
    by (simp add: generated_signature_def encode_def example_env_def known_digests_def)
  have h4: "''25e54fc994958b03e5d550900551f2224e4bc3f71ed65272552271e2d4c1b713'' \<noteq>
       ''15e54fc994958b03e5d550900551f2224e4bc3f71ed65272552271e2d4c1b713''"
    by simp
  have h5: "(63::nat) < length ''15e54fc994958b03e5d550900551f2224e4bc3f71ed65272552271e2d4c1b713''"
    by simp
  have h6: "CHR ''4'' \<noteq> ''15e54fc994958b03e5d550900551f2224e4bc3f71ed65272552271e2d4c1b713'' ! 63"
    by simp
  have g1: "generated_signature example_env (''order_1'' @ ''|'' @ ''pay_1'') \<noteq> Some ''forged''"
    by (simp add: generated_signature_def encode_def example_env_def known_digests_def)
  have g2: "generated_signature example_env (''order_1'' @ ''|'' @ ''pay_2'') \<noteq>
       Some ''15e54fc994958b03e5d550900551f2224e4bc3f71ed65272552271e2d4c1b713''"
    by (simp add: generated_signature_def encode_def example_env_def known_digests_def)
  have g3: "generated_signature example_env
        ((''order_'' @ [CHR 0xED, CHR 0xA0, CHR 0x80]) @ ''|'' @ ''pay_1'') \<noteq> Some ''forged''"
    by (simp add: generated_signature_def encode_def example_env_def)
  have h7: "\<forall>pd \<in> set ?pds.
          generated_signature example_env
             (razorpay_order_id pd @ ''|'' @ razorpay_payment_id pd) \<noteq>
            Some (razorpay_signature pd)"
    using g1 g2 g3 by simp
  note inst = verify_payment_signature_mismatch [OF h1 h2 h3,
      where sig = "''25e54fc994958b03e5d550900551f2224e4bc3f71ed65272552271e2d4c1b713''"
        and rid = "''r1''" and s = "[example_doc]" and pds = "?pds"]
  from inst h4 have c1: "verify_payment example_env
        (PaymentVerification ''order_1'' ''pay_1''
           ''25e54fc994958b03e5d550900551f2224e4bc3f71ed65272552271e2d4c1b713'' ''r1'')
        [example_doc] =
       (Inl (HTTPException 400 ''Invalid payment signature''), [example_doc])"
    by blast
  from inst h5 h6 have c2: "verify_payment example_env
        (PaymentVerification ''order_1'' ''pay_1''
           (''15e54fc994958b03e5d550900551f2224e4bc3f71ed65272552271e2d4c1b713''[63 := CHR ''4''])
           ''r1'')
        [example_doc] =
       (Inl (HTTPException 400 ''Invalid payment signature''), [example_doc])"
    by blast
  from inst h7 have c3: "foldl (\<lambda>t pd. snd (verify_payment example_env pd t)) [example_doc]
        ?pds = [example_doc]"
    by blast
  from inst have c4: "fst (verify_payment (example_env\<lparr>store_reachable := False\<rparr>)
        (PaymentVerification ''order_1'' ''pay_1''
           ''15e54fc994958b03e5d550900551f2224e4bc3f71ed65272552271e2d4c1b713'' ''r1'')
        [example_doc]) =
       Inl (HTTPException 500 ''Payment verification failed'')"
    by blast
  show ?thesis using h1 h2 h3 h4 h5 h6 g1 g2 g3 c1 c2 c3 c4 by blast
qed

text \<open>
Claim C3 says that every order created for a registration takes the registration's
  stored amount. The handler takes the amount from the request body instead: for the
  registration \<open>''r1''\<close>, created with amount 1200000, a request with amount 1 sends
  1 to the gateway and is answered with an order of amount 1.
\<close>

theorem create_order_amount_counterexample:
  "snd (create_registration example_env ''r1'' example_now example_input []) = [example_doc]
   \<and> amount example_doc = 1200000
   \<and> req_amount (order_request_of (OrderCreate 1 ''INR'' ''r1'')) = 1
   \<and> create_order example_env (OrderCreate 1 ''INR'' ''r1'') [example_doc] =
       (Inr (OrderResponse ''order_1'' 1 ''INR'' ''rzp_test_key''),
        [example_doc\<lparr>order_id := Some ''order_1''\<rparr>])"
  by (simp add: create_registration_def insert_one_def calculate_amount_def dict_get_def
        PRICING_def create_order_def razorpay_client_def update_one_def order_request_of_def
        example_defs)

text \<open>
  Claim C3, amended. \<open>create_registration\<close> stores the amount it computes: the document
  it appends carries the new identifier and the amount of the registration it returns,
  the documents before it are kept, and that amount is still there after any sequence of
  later requests. No request changes the amount of a stored document.
  \<open>create_order\<close> takes the order amount from its request body: the request it hands to
  the gateway carries that amount, its answer is the gateway's order for that request,
  and neither depends on what the collection holds.
\<close>

theorem stored_amount_fixed:
  "(fst (create_registration e0 new_id now inp s0) = Inr reg \<longrightarrow>
      amount reg = calculate_amount inp * 100
    \<and> length (snd (create_registration e0 new_id now inp s0)) = Suc (length s0)
    \<and> take (length s0) (snd (create_registration e0 new_id now inp s0)) = s0
    \<and> reg_id (snd (create_registration e0 new_id now inp s0) ! length s0) = new_id
    \<and> amount (snd (create_registration e0 new_id now inp s0) ! length s0) = amount reg
    \<and> amount (foldl (\<lambda>t (e', r). api_router e' r t)
                 (snd (create_registration e0 new_id now inp s0)) steps ! length s0) =
        amount reg)
   \<and> length s \<le> length (api_router e req s)
   \<and> (\<forall>i < length s.
         amount (api_router e req s ! i) = amount (s ! i)
       \<and> amount (foldl (\<lambda>t (e', r). api_router e' r t) s steps ! i) = amount (s ! i))
   \<and> req_amount (order_request_of order_data) = oc_amount order_data
   \<and> (fst (create_order e order_data s) = Inr resp \<longrightarrow>
        order_create e
          (OrderRequest (oc_amount order_data) (oc_currency order_data) 1
             (oc_registration_id order_data)) =
          Some (GatewayOrder (resp_order_id resp) (resp_amount resp) (resp_currency resp)))
   \<and> (razorpay_client e \<noteq> None \<and> store_reachable e \<longrightarrow>
        fst (create_order e order_data s) =
          (case order_create e
                  (OrderRequest (oc_amount order_data) (oc_currency order_data) 1
                     (oc_registration_id order_data)) of
             None \<Rightarrow> Inl (HTTPException 500 ''Failed to create payment order'')
           | Some order \<Rightarrow>
               Inr (OrderResponse (order_ident order) (order_amount order)
                      (order_currency order) (razorpay_key_id e))))
   \<and> fst (create_order e order_data s') = fst (create_order e order_data s)"
proof -
  let ?s1 = "snd (create_registration e0 new_id now inp s0)"
  have created: "fst (create_registration e0 new_id now inp s0) = Inr reg \<longrightarrow>
      amount reg = calculate_amount inp * 100
    \<and> length ?s1 = Suc (length s0)
    \<and> take (length s0) ?s1 = s0
    \<and> reg_id (?s1 ! length s0) = new_id
    \<and> amount (?s1 ! length s0) = amount reg
    \<and> amount (foldl (\<lambda>t (e', r). api_router e' r t) ?s1 steps ! length s0) = amount reg"
  proof
    assume ok: "fst (create_registration e0 new_id now inp s0) = Inr reg"
    then have up: "store_reachable e0"
      and reg: "reg = Registration inp new_id now (calculate_amount inp * 100)"
      by (auto simp: fst_create_registration split: if_splits)
    have s1: "?s1 = s0 @ [with_created_at (isoformat e0 now) reg]"
      using up by (simp add: snd_create_registration reg)
    have len: "length ?s1 = Suc (length s0)" by (simp add: s1)
    have last: "?s1 ! length s0 = with_created_at (isoformat e0 now) reg" by (simp add: s1)
    have a: "amount (?s1 ! length s0) = amount reg"
      and i: "reg_id (?s1 ! length s0) = new_id"
      by (simp_all add: last with_created_at_def reg Registration_def)
    have "length s0 < length ?s1" by (simp add: len)
    then have "amount (foldl (\<lambda>t (e', r). api_router e' r t) ?s1 steps ! length s0) =
        amount (?s1 ! length s0)"
      by (rule run_amount)
    then show "amount reg = calculate_amount inp * 100
      \<and> length ?s1 = Suc (length s0)
      \<and> take (length s0) ?s1 = s0
      \<and> reg_id (?s1 ! length s0) = new_id
      \<and> amount (?s1 ! length s0) = amount reg
      \<and> amount (foldl (\<lambda>t (e', r). api_router e' r t) ?s1 steps ! length s0) = amount reg"
      using len a i by (simp add: s1 reg amount_Registration)
  qed
  have sent: "fst (create_order e order_data s) = Inr resp \<longrightarrow>
        order_create e
          (OrderRequest (oc_amount order_data) (oc_currency order_data) 1
             (oc_registration_id order_data)) =
          Some (GatewayOrder (resp_order_id resp) (resp_amount resp) (resp_currency resp))"
    by (auto simp: fst_create_order order_request_of_def split: option.splits if_splits)
  have answer: "razorpay_client e \<noteq> None \<and> store_reachable e \<longrightarrow>
        fst (create_order e order_data s) =
          (case order_create e
                  (OrderRequest (oc_amount order_data) (oc_currency order_data) 1
                     (oc_registration_id order_data)) of
             None \<Rightarrow> Inl (HTTPException 500 ''Failed to create payment order'')
           | Some order \<Rightarrow>
               Inr (OrderResponse (order_ident order) (order_amount order)
                      (order_currency order) (razorpay_key_id e)))"
    by (auto simp: fst_create_order order_request_of_def split: option.splits)
  have rest: "length s \<le> length (api_router e req s)
   \<and> (\<forall>i < length s.
         amount (api_router e req s ! i) = amount (s ! i)
       \<and> amount (foldl (\<lambda>t (e', r). api_router e' r t) s steps ! i) = amount (s ! i))
   \<and> req_amount (order_request_of order_data) = oc_amount order_data
   \<and> fst (create_order e order_data s') = fst (create_order e order_data s)"
    using length_api_router [of s e req]
    by (simp add: api_router_amount run_amount order_request_of_def fst_create_order)
  show ?thesis using created sent answer rest by blast
qed

text \<open>
  The theorem at the example deployment: \<open>''r1''\<close> is created and stored with amount
  1200000, an order of amount 1 is requested for it and the gateway is asked for amount 1,
  and the stored amount stays 1200000 through that order, a payment verification and a
  further registration.
\<close>

theorem stored_amount_fixed_witness:
  "fst (create_registration example_env ''r1'' example_now example_input []) =
     Inr (Registration example_input ''r1'' example_now 1200000)
   \<and> snd (create_registration example_env ''r1'' example_now example_input []) = [example_doc]
   \<and> amount (Registration example_input ''r1'' example_now 1200000) = 1200000
   \<and> amount ([example_doc] ! 0) = 1200000
   \<and> reg_id ([example_doc] ! 0) = ''r1''
   \<and> fst (create_order example_env (OrderCreate 1 ''INR'' ''r1'') [example_doc]) =
       Inr (OrderResponse ''order_1'' 1 ''INR'' ''rzp_test_key'')
   \<and> order_create example_env (OrderRequest 1 ''INR'' 1 ''r1'') =
       Some (GatewayOrder ''order_1'' 1 ''INR'')
   \<and> (0::nat) < length [example_doc]
   \<and> amount (api_router example_env (PostCreateOrder (OrderCreate 1 ''INR'' ''r1''))
               [example_doc] ! 0) = 1200000
   \<and> amount
        (foldl (\<lambda>t (e', r). api_router e' r t) [example_doc]
           [(example_env, PostCreateOrder (OrderCreate 1 ''INR'' ''r1'')),
            (example_env, PostVerifyPayment (PaymentVerification ''order_1'' ''pay_1''
               ''15e54fc994958b03e5d550900551f2224e4bc3f71ed65272552271e2d4c1b713'' ''r1'')),
            (example_env, PostRegistration ''r1'' example_now
               (example_input\<lparr>category := ''workshop_only''\<rparr>))] ! 0) = 1200000
   \<and> req_amount (order_request_of (OrderCreate 1 ''INR'' ''r1'')) = 1"
proof -
  let ?steps = "[(example_env, PostCreateOrder (OrderCreate 1 ''INR'' ''r1'')),
            (example_env, PostVerifyPayment (PaymentVerification ''order_1'' ''pay_1''
               ''15e54fc994958b03e5d550900551f2224e4bc3f71ed65272552271e2d4c1b713'' ''r1'')),
            (example_env, PostRegistration ''r1'' example_now
               (example_input\<lparr>category := ''workshop_only''\<rparr>))]"
  have cr: "fst (create_registration example_env ''r1'' example_now example_input []) =
     Inr (Registration example_input ''r1'' example_now 1200000)"
    by (simp add: create_registration_def insert_one_def calculate_amount_def dict_get_def
          PRICING_def example_env_def example_input_def Let_def)
  have st: "snd (create_registration example_env ''r1'' example_now example_input []) =
     [example_doc]"
    by (simp add: create_registration_def insert_one_def calculate_amount_def dict_get_def
          PRICING_def Let_def example_defs)
  have co: "fst (create_order example_env (OrderCreate 1 ''INR'' ''r1'') [example_doc]) =
       Inr (OrderResponse ''order_1'' 1 ''INR'' ''rzp_test_key'')"
    by (simp add: create_order_def razorpay_client_def update_one_def order_request_of_def
          example_env_def)
  have h0: "(0::nat) < length [example_doc]" by simp
  note inst = stored_amount_fixed [where ?e0.0 = example_env and new_id = "''r1''"
      and now = example_now and inp = example_input and ?s0.0 = "[]"
      and reg = "Registration example_input ''r1'' example_now 1200000"
      and s = "[example_doc]" and e = example_env
      and req = "PostCreateOrder (OrderCreate 1 ''INR'' ''r1'')"
      and order_data = "OrderCreate 1 ''INR'' ''r1''"
      and resp = "OrderResponse ''order_1'' 1 ''INR'' ''rzp_test_key''"
      and steps = "?steps", unfolded st]
  from inst cr have a1: "amount ([example_doc] ! length ([] :: doc list)) =
      amount (Registration example_input ''r1'' example_now 1200000)"
    and a2: "reg_id ([example_doc] ! length ([] :: doc list)) = ''r1''"
    by blast+
  from inst co have a3: "order_create example_env
      (OrderRequest (oc_amount (OrderCreate 1 ''INR'' ''r1''))
         (oc_currency (OrderCreate 1 ''INR'' ''r1'')) 1
         (oc_registration_id (OrderCreate 1 ''INR'' ''r1''))) =
      Some (GatewayOrder (resp_order_id (OrderResponse ''order_1'' 1 ''INR'' ''rzp_test_key''))
              (resp_amount (OrderResponse ''order_1'' 1 ''INR'' ''rzp_test_key''))
              (resp_currency (OrderResponse ''order_1'' 1 ''INR'' ''rzp_test_key'')))"
    by blast
  from inst h0 have a4: "amount (api_router example_env
        (PostCreateOrder (OrderCreate 1 ''INR'' ''r1'')) [example_doc] ! 0) =
      amount ([example_doc] ! 0)"
    and a5: "amount (foldl (\<lambda>t (e', r). api_router e' r t) [example_doc] ?steps ! 0) =
      amount ([example_doc] ! 0)"
    by blast+
  from inst have a6: "req_amount (order_request_of (OrderCreate 1 ''INR'' ''r1'')) =
      oc_amount (OrderCreate 1 ''INR'' ''r1'')"
    by blast
  have am: "amount (Registration example_input ''r1'' example_now 1200000) = 1200000"
    by (simp add: amount_Registration)
  show ?thesis using cr st co h0 a1 a2 a3 a4 a5 a6 am by simp
qed

text \<open>
Claim C4. When the key id or the key secret is empty, \<open>create_order\<close> and
  \<open>verify_payment\<close> both raise \<open>HTTPException 500 ''Payment gateway not configured''\<close>
  and return the collection as it was, whatever the gateway, the digest function and the
  database would have done.
\<close>

theorem gateway_not_configured:
  assumes "razorpay_key_id e = [] \<or> razorpay_key_secret e = []"
  shows "create_order e order_data s =
           (Inl (HTTPException 500 ''Payment gateway not configured''), s)
       \<and> verify_payment e payment_data s =
           (Inl (HTTPException 500 ''Payment gateway not configured''), s)"
  using razorpay_client_None [OF assms] by (simp add: create_order_def verify_payment_def)

text \<open>
The theorem at the example deployment with its key secret removed.
\<close>

theorem gateway_not_configured_witness:
  "(razorpay_key_id (example_env\<lparr>razorpay_key_secret := []\<rparr>) = []
      \<or> razorpay_key_secret (example_env\<lparr>razorpay_key_secret := []\<rparr>) = [])
   \<and> create_order (example_env\<lparr>razorpay_key_secret := []\<rparr>)
        (OrderCreate 1200000 ''INR'' ''r1'') [example_doc] =
       (Inl (HTTPException 500 ''Payment gateway not configured''), [example_doc])
   \<and> verify_payment (example_env\<lparr>razorpay_key_secret := []\<rparr>)
        (PaymentVerification ''order_1'' ''pay_1''
           ''15e54fc994958b03e5d550900551f2224e4bc3f71ed65272552271e2d4c1b713'' ''r1'')
        [example_doc] =
       (Inl (HTTPException 500 ''Payment gateway not configured''), [example_doc])"
proof -
  have h: "razorpay_key_id (example_env\<lparr>razorpay_key_secret := []\<rparr>) = []
      \<or> razorpay_key_secret (example_env\<lparr>razorpay_key_secret := []\<rparr>) = []"
    by simp
  show ?thesis using h gateway_not_configured [OF h] by blast
qed

text \<open>
Claim C5. The amount of a created registration is the category's fee (0 for a category
  not in the table) plus, when accommodation is required and a non-empty room type is
  given, twice the room's rate (0 for a room not in the table), times 100. The check-in and
  check-out dates play no part: with other dates the same registration is created, dates
  apart.
\<close>

theorem create_registration_amount:
  assumes "fst (create_registration e new_id now inp s) = Inr reg"
  shows "amount reg =
           (dict_get PRICING (category inp) 0 +
            (case room_type inp of
               None \<Rightarrow> 0
             | Some rt \<Rightarrow>
                 if accommodation_required inp \<and> rt \<noteq> []
                 then dict_get ROOM_PRICING rt 0 * 2 else 0)) * 100
       \<and> fst (create_registration e new_id now
                (inp\<lparr>check_in_date := ci, check_out_date := co\<rparr>) s) =
           Inr (reg\<lparr>check_in_date := ci, check_out_date := co\<rparr>)"
proof -
  from assms have up: "store_reachable e"
    and reg: "reg = Registration inp new_id now (calculate_amount inp * 100)"
    by (auto simp: fst_create_registration split: if_splits)
  have "amount reg =
           (dict_get PRICING (category inp) 0 +
            (case room_type inp of
               None \<Rightarrow> 0
             | Some rt \<Rightarrow>
                 if accommodation_required inp \<and> rt \<noteq> []
                 then dict_get ROOM_PRICING rt 0 * 2 else 0)) * 100"
    by (simp add: reg amount_Registration calculate_amount_def Let_def split: option.splits)
  moreover have "fst (create_registration e new_id now
                (inp\<lparr>check_in_date := ci, check_out_date := co\<rparr>) s) =
           Inr (reg\<lparr>check_in_date := ci, check_out_date := co\<rparr>)"
    using up
    by (simp add: fst_create_registration reg Registration_def calculate_amount_def Let_def
          split: option.splits)
  ultimately show ?thesis by simp
qed

text \<open>
The theorem at a regular delegate in a deluxe room: (15000 + 8000 * 2) * 100 paise,
  with or without dates that are a week apart.
\<close>

theorem create_registration_amount_witness:
  "fst (create_registration example_env ''r2'' example_now
          (example_input\<lparr>category := ''delegate_regular'', accommodation_required := True,
                          room_type := Some ''deluxe''\<rparr>) [example_doc]) =
     Inr (Registration
            (example_input\<lparr>category := ''delegate_regular'', accommodation_required := True,
                            room_type := Some ''deluxe''\<rparr>) ''r2'' example_now 3100000)
   \<and> amount (Registration
            (example_input\<lparr>category := ''delegate_regular'', accommodation_required := True,
                            room_type := Some ''deluxe''\<rparr>) ''r2'' example_now 3100000) =
       (15000 + 8000 * 2) * 100
   \<and> fst (create_registration example_env ''r2'' example_now
          (example_input\<lparr>category := ''delegate_regular'', accommodation_required := True,
                          room_type := Some ''deluxe'',
                          check_in_date := Some ''2026-02-01'',
                          check_out_date := Some ''2026-02-08''\<rparr>) [example_doc]) =
     Inr (Registration
            (example_input\<lparr>category := ''delegate_regular'', accommodation_required := True,
                            room_type := Some ''deluxe'',
                            check_in_date := Some ''2026-02-01'',
                            check_out_date := Some ''2026-02-08''\<rparr>)
            ''r2'' example_now 3100000)"
proof -
  have h: "fst (create_registration example_env ''r2'' example_now
          (example_input\<lparr>category := ''delegate_regular'', accommodation_required := True,
                          room_type := Some ''deluxe''\<rparr>) [example_doc]) =
     Inr (Registration
            (example_input\<lparr>category := ''delegate_regular'', accommodation_required := True,
                            room_type := Some ''deluxe''\<rparr>) ''r2'' example_now 3100000)"
    by (simp add: create_registration_def insert_one_def calculate_amount_def dict_get_def
          PRICING_def ROOM_PRICING_def example_env_def example_input_def Let_def)
  show ?thesis
    using h create_registration_amount [OF h, where ci = "Some ''2026-02-01''"
        and co = "Some ''2026-02-08''"]
    by (simp add: Registration_def dict_get_def PRICING_def ROOM_PRICING_def)
qed

text \<open>
Claim C6. Whenever the database answers, creating a registration succeeds, whatever
  the category and the room type; a category outside the pricing table contributes 0 to
  the amount, and so does a room type outside the room table.
\<close>

theorem create_registration_unknown_keys:
  assumes "store_reachable e"
  shows "\<exists>reg. fst (create_registration e new_id now inp s) = Inr reg
       \<and> (map_of PRICING (category inp) = None \<longrightarrow>
            amount reg =
              (case room_type inp of
                 None \<Rightarrow> 0
               | Some rt \<Rightarrow>
                   if accommodation_required inp \<and> rt \<noteq> []
                   then dict_get ROOM_PRICING rt 0 * 2 else 0) * 100)
       \<and> (\<forall>rt. room_type inp = Some rt \<and> map_of ROOM_PRICING rt = None \<longrightarrow>
            amount reg = dict_get PRICING (category inp) 0 * 100)"
  using assms
  by (auto simp: fst_create_registration amount_Registration calculate_amount_def dict_get_def
        Let_def split: option.splits)

text \<open>
The theorem at a category and a room type that are in neither table: the registration
  is created with amount 0.
\<close>

theorem create_registration_unknown_keys_witness:
  "store_reachable example_env
   \<and> map_of PRICING ''vip'' = None
   \<and> map_of ROOM_PRICING ''penthouse'' = None
   \<and> fst (create_registration example_env ''r3'' example_now
          (example_input\<lparr>category := ''vip'', accommodation_required := True,
                          room_type := Some ''penthouse''\<rparr>) [example_doc]) =
     Inr (Registration
            (example_input\<lparr>category := ''vip'', accommodation_required := True,
                            room_type := Some ''penthouse''\<rparr>) ''r3'' example_now 0)"
proof -
  have h: "store_reachable example_env" by (simp add: example_env_def)
  have k1: "map_of PRICING ''vip'' = None" by (simp add: PRICING_def)
  have k2: "map_of ROOM_PRICING ''penthouse'' = None" by (simp add: ROOM_PRICING_def)
  from create_registration_unknown_keys [OF h, of "''r3''" example_now
      "example_input\<lparr>category := ''vip'', accommodation_required := True,
                      room_type := Some ''penthouse''\<rparr>" "[example_doc]"]
  obtain reg where
    r: "fst (create_registration example_env ''r3'' example_now
          (example_input\<lparr>category := ''vip'', accommodation_required := True,
                          room_type := Some ''penthouse''\<rparr>) [example_doc]) = Inr reg"
    and a: "amount reg = dict_get PRICING ''vip'' 0 * 100"
    using k2 by auto
  have "reg = Registration
            (example_input\<lparr>category := ''vip'', accommodation_required := True,
                            room_type := Some ''penthouse''\<rparr>) ''r3'' example_now (amount reg)"
    using r h by (auto simp: fst_create_registration Registration_def split: if_splits)
  moreover have "amount reg = 0" using a k1 by (simp add: dict_get_def)
  ultimately show ?thesis using h k1 k2 r by simp
qed

text \<open>
Claim C7. Creating a registration of category \<open>''delegate_early_bird''\<close> without
  accommodation returns a pending registration of amount 1200000, and fetching it by its
  identifier from the collection so extended returns the same record. The identifier is
  fresh, the database answers, and \<open>fromisoformat\<close> reads back the text that
  \<open>isoformat\<close> writes for the creation time.
\<close>

theorem create_then_get_registration:
  assumes "store_reachable e"
    and "new_id \<notin> reg_id ` set s"
    and "fromisoformat e (isoformat e now) = Some now"
    and "category inp = ''delegate_early_bird''"
    and "\<not> accommodation_required inp"
  shows "\<exists>reg s'. create_registration e new_id now inp s = (Inr reg, s')
       \<and> amount reg = 1200000
       \<and> payment_status reg = ''pending''
       \<and> get_registration e new_id s' = (Inr reg, s')"
proof -
  let ?reg = "Registration inp new_id now (calculate_amount inp * 100)"
  let ?doc = "with_created_at (isoformat e now) ?reg"
  have amt: "calculate_amount inp = 12000"
    using assms(4,5)
    by (simp add: calculate_amount_def dict_get_def PRICING_def Let_def split: option.splits)
  have cr: "create_registration e new_id now inp s = (Inr ?reg, s @ [?doc])"
    using assms(1) by (simp add: create_registration_def insert_one_def Let_def Registration_def)
  have fd: "find (\<lambda>d. reg_id d = new_id) (s @ [?doc]) = Some ?doc"
    using assms(2) by (rule find_append_fresh) (simp add: with_created_at_def Registration_def)
  have cat: "created_at ?doc = isoformat e now"
    by (simp add: with_created_at_def)
  have get: "get_registration e new_id (s @ [?doc]) = (Inr ?reg, s @ [?doc])"
    using assms(1,3) fd cat
    by (simp add: get_registration_def find_one_def with_created_at_roundtrip)
  have "amount ?reg = 1200000" by (simp add: amount_Registration amt)
  moreover have "payment_status ?reg = ''pending''" by (simp add: Registration_def)
  ultimately show ?thesis using cr get by blast
qed

text \<open>
The theorem at the example deployment and the empty collection.
\<close>

theorem create_then_get_registration_witness:
  "store_reachable example_env
   \<and> ''r1'' \<notin> reg_id ` set []
   \<and> fromisoformat example_env (isoformat example_env example_now) = Some example_now
   \<and> category example_input = ''delegate_early_bird''
   \<and> \<not> accommodation_required example_input
   \<and> create_registration example_env ''r1'' example_now example_input [] =
       (Inr (Registration example_input ''r1'' example_now 1200000), [example_doc])
   \<and> get_registration example_env ''r1'' [example_doc] =
       (Inr (Registration example_input ''r1'' example_now 1200000), [example_doc])"
proof -
  have h1: "store_reachable example_env" by (simp add: example_env_def)
  have h2: "''r1'' \<notin> reg_id ` set []" by simp
  have h3: "fromisoformat example_env (isoformat example_env example_now) = Some example_now"
    by (simp add: example_env_def)
  have h4: "category example_input = ''delegate_early_bird''" by (simp add: example_input_def)
  have h5: "\<not> accommodation_required example_input" by (simp add: example_input_def)
  from create_then_get_registration [OF h1 h2 h3 h4 h5]
  obtain reg s' where
    c: "create_registration example_env ''r1'' example_now example_input [] = (Inr reg, s')"
    and a: "amount reg = 1200000"
    and g: "get_registration example_env ''r1'' s' = (Inr reg, s')"
    by blast
  have reg: "reg = Registration example_input ''r1'' example_now 1200000"
    using c a h1
    by (auto simp: create_registration_def insert_one_def Let_def Registration_def)
  have s': "s' = [example_doc]"
    using c a h1
    by (auto simp: create_registration_def insert_one_def Let_def Registration_def
          example_doc_def with_created_at_def example_env_def)
  show ?thesis using h1 h2 h3 h4 h5 c g unfolding reg s' by simp
qed

text \<open>
Claim C8. A request never removes a document, and for every stored document: a
  completed payment stays completed, after one request and after any sequence of
  requests; and when one request changes the payment status, the new status is
  \<open>''completed''\<close> and the request is a payment verification for that registration,
  correctly signed and answered with success. Moreover a second correctly signed
  verification for the same registration with another payment id succeeds as well and
  replaces the stored payment id, the status staying \<open>''completed''\<close>.
\<close>

theorem payment_status_transitions:
  "length s \<le> length (api_router e req s)
   \<and> (\<forall>i < length s.
        (payment_status (s ! i) = ''completed'' \<longrightarrow>
           payment_status (api_router e req s ! i) = ''completed'')
      \<and> (payment_status (api_router e req s ! i) \<noteq> payment_status (s ! i) \<longrightarrow>
           payment_status (api_router e req s ! i) = ''completed''
         \<and> (\<exists>pd. req = PostVerifyPayment pd
               \<and> pv_registration_id pd = reg_id (s ! i)
               \<and> generated_signature e (razorpay_order_id pd @ ''|'' @ razorpay_payment_id pd) =
                   Some (razorpay_signature pd)
               \<and> fst (verify_payment e pd s) =
                   Inr [(''status'', ''success''),
                        (''message'', ''Payment verified successfully'')]))
      \<and> (payment_status (s ! i) = ''completed'' \<longrightarrow>
           payment_status (foldl (\<lambda>t (e', r). api_router e' r t) s steps ! i) = ''completed''))
   \<and> (razorpay_key_id e \<noteq> [] \<and> razorpay_key_secret e \<noteq> [] \<and> store_reachable e
        \<and> generated_signature e (oid @ ''|'' @ pid1) = Some sig1
        \<and> generated_signature e (oid @ ''|'' @ pid2) = Some sig2
        \<and> find (\<lambda>d. reg_id d = rid) s = Some d \<longrightarrow>
      find (\<lambda>d. reg_id d = rid)
        (snd (verify_payment e
           (PaymentVerification oid pid1 sig1 rid) s)) =
        Some (d\<lparr>payment_status := ''completed'', payment_id := Some pid1\<rparr>)
      \<and> fst (verify_payment e
           (PaymentVerification oid pid2 sig2 rid)
           (snd (verify_payment e
              (PaymentVerification oid pid1 sig1 rid) s))) =
        Inr [(''status'', ''success''), (''message'', ''Payment verified successfully'')]
      \<and> find (\<lambda>d. reg_id d = rid)
        (snd (verify_payment e
           (PaymentVerification oid pid2 sig2 rid)
           (snd (verify_payment e
              (PaymentVerification oid pid1 sig1 rid) s)))) =
        Some (d\<lparr>payment_status := ''completed'', payment_id := Some pid2\<rparr>))"
proof -
  have one: "\<forall>i < length s.
        (payment_status (s ! i) = ''completed'' \<longrightarrow>
           payment_status (api_router e req s ! i) = ''completed'')
      \<and> (payment_status (api_router e req s ! i) \<noteq> payment_status (s ! i) \<longrightarrow>
           payment_status (api_router e req s ! i) = ''completed''
         \<and> (\<exists>pd. req = PostVerifyPayment pd
               \<and> pv_registration_id pd = reg_id (s ! i)
               \<and> generated_signature e (razorpay_order_id pd @ ''|'' @ razorpay_payment_id pd) =
                   Some (razorpay_signature pd)
               \<and> fst (verify_payment e pd s) =
                   Inr [(''status'', ''success''),
                        (''message'', ''Payment verified successfully'')]))
      \<and> (payment_status (s ! i) = ''completed'' \<longrightarrow>
           payment_status (foldl (\<lambda>t (e', r). api_router e' r t) s steps ! i) = ''completed'')"
  proof (intro allI impI conjI)
    fix i assume i: "i < length s"
    { assume "payment_status (s ! i) = ''completed''"
      then show "payment_status (api_router e req s ! i) = ''completed''"
        by (rule api_router_completed [OF i]) }
    { assume "payment_status (s ! i) = ''completed''"
      then show "payment_status (foldl (\<lambda>t (e', r). api_router e' r t) s steps ! i) = ''completed''"
        by (rule run_completed [OF i]) }
    { assume ch: "payment_status (api_router e req s ! i) \<noteq> payment_status (s ! i)"
      with api_router_nth [OF i, of e req]
      show "payment_status (api_router e req s ! i) = ''completed''" by auto
      from ch api_router_nth [OF i, of e req]
      show "\<exists>pd. req = PostVerifyPayment pd
               \<and> pv_registration_id pd = reg_id (s ! i)
               \<and> generated_signature e (razorpay_order_id pd @ ''|'' @ razorpay_payment_id pd) =
                   Some (razorpay_signature pd)
               \<and> fst (verify_payment e pd s) =
                   Inr [(''status'', ''success''),
                        (''message'', ''Payment verified successfully'')]"
        by auto }
  qed
  have two: "razorpay_key_id e \<noteq> [] \<and> razorpay_key_secret e \<noteq> [] \<and> store_reachable e
        \<and> generated_signature e (oid @ ''|'' @ pid1) = Some sig1
        \<and> generated_signature e (oid @ ''|'' @ pid2) = Some sig2
        \<and> find (\<lambda>d. reg_id d = rid) s = Some d \<longrightarrow>
      find (\<lambda>d. reg_id d = rid)
        (snd (verify_payment e
           (PaymentVerification oid pid1 sig1 rid) s)) =
        Some (d\<lparr>payment_status := ''completed'', payment_id := Some pid1\<rparr>)
      \<and> fst (verify_payment e
           (PaymentVerification oid pid2 sig2 rid)
           (snd (verify_payment e
              (PaymentVerification oid pid1 sig1 rid) s))) =
        Inr [(''status'', ''success''), (''message'', ''Payment verified successfully'')]
      \<and> find (\<lambda>d. reg_id d = rid)
        (snd (verify_payment e
           (PaymentVerification oid pid2 sig2 rid)
           (snd (verify_payment e
              (PaymentVerification oid pid1 sig1 rid) s)))) =
        Some (d\<lparr>payment_status := ''completed'', payment_id := Some pid2\<rparr>)"
    by (simp add: fst_verify_payment snd_verify_payment razorpay_client_def find_update_first)
  show ?thesis using length_api_router [of s e req] one two by blast
qed

text \<open>
The theorem at the example deployment, on a collection with a pending and a completed
  registration.
\<close>

theorem payment_status_transitions_witness:
  "(0::nat) < length [example_doc, example_paid_doc]
   \<and> payment_status ([example_doc, example_paid_doc] ! 0) = ''pending''
   \<and> payment_status
        (api_router example_env
           (PostVerifyPayment (PaymentVerification ''order_1'' ''pay_1''
              ''15e54fc994958b03e5d550900551f2224e4bc3f71ed65272552271e2d4c1b713'' ''r1''))
           [example_doc, example_paid_doc] ! 0) = ''completed''
   \<and> (1::nat) < length [example_doc, example_paid_doc]
   \<and> payment_status ([example_doc, example_paid_doc] ! 1) = ''completed''
   \<and> payment_status
        (api_router example_env
           (PostVerifyPayment (PaymentVerification ''order_1'' ''pay_1''
              ''15e54fc994958b03e5d550900551f2224e4bc3f71ed65272552271e2d4c1b713'' ''r1''))
           [example_doc, example_paid_doc] ! 1) = ''completed''
   \<and> payment_status
        (foldl (\<lambda>t (e', r). api_router e' r t) [example_doc, example_paid_doc]
           [(example_env, PostVerifyPayment (PaymentVerification ''order_1'' ''pay_1'' ''forged'' ''r2'')),
            (example_env, PostCreateOrder (OrderCreate 500000 ''INR'' ''r2'')),
            (example_env, PostRegistration ''r2'' example_now example_input),
            (example_env, GetRegistration ''r2'')] ! 1) = ''completed''
   \<and> razorpay_key_id example_env \<noteq> [] \<and> razorpay_key_secret example_env \<noteq> []
   \<and> store_reachable example_env
   \<and> generated_signature example_env (''order_1'' @ ''|'' @ ''pay_1'') =
       Some ''15e54fc994958b03e5d550900551f2224e4bc3f71ed65272552271e2d4c1b713''
   \<and> generated_signature example_env (''order_1'' @ ''|'' @ ''pay_2'') =
       Some ''42b36d6ca2796f41479c0970a1439425646c6b772a81e05457de24c69b76a61f''
   \<and> find (\<lambda>d. reg_id d = ''r1'') [example_doc, example_paid_doc] = Some example_doc
   \<and> find (\<lambda>d. reg_id d = ''r1'')
        (snd (verify_payment example_env
           (PaymentVerification ''order_1'' ''pay_1''
              ''15e54fc994958b03e5d550900551f2224e4bc3f71ed65272552271e2d4c1b713'' ''r1'')
           [example_doc, example_paid_doc])) =
       Some (example_doc\<lparr>payment_status := ''completed'', payment_id := Some ''pay_1''\<rparr>)
   \<and> fst (verify_payment example_env
           (PaymentVerification ''order_1'' ''pay_2''
              ''42b36d6ca2796f41479c0970a1439425646c6b772a81e05457de24c69b76a61f'' ''r1'')
           (snd (verify_payment example_env
              (PaymentVerification ''order_1'' ''pay_1''
                 ''15e54fc994958b03e5d550900551f2224e4bc3f71ed65272552271e2d4c1b713'' ''r1'')
              [example_doc, example_paid_doc]))) =
       Inr [(''status'', ''success''), (''message'', ''Payment verified successfully'')]
   \<and> find (\<lambda>d. reg_id d = ''r1'')
        (snd (verify_payment example_env
           (PaymentVerification ''order_1'' ''pay_2''
              ''42b36d6ca2796f41479c0970a1439425646c6b772a81e05457de24c69b76a61f'' ''r1'')
           (snd (verify_payment example_env
              (PaymentVerification ''order_1'' ''pay_1''
                 ''15e54fc994958b03e5d550900551f2224e4bc3f71ed65272552271e2d4c1b713'' ''r1'')
              [example_doc, example_paid_doc])))) =
       Some (example_doc\<lparr>payment_status := ''completed'', payment_id := Some ''pay_2''\<rparr>)"
proof -
  let ?s = "[example_doc, example_paid_doc]"
  let ?req = "PostVerifyPayment (PaymentVerification ''order_1'' ''pay_1''
              ''15e54fc994958b03e5d550900551f2224e4bc3f71ed65272552271e2d4c1b713'' ''r1'')"
  have dg1: "generated_signature example_env (''order_1'' @ ''|'' @ ''pay_1'') =
       Some ''15e54fc994958b03e5d550900551f2224e4bc3f71ed65272552271e2d4c1b713''"
    by (simp add: generated_signature_def encode_def example_env_def known_digests_def)
  have dg2: "generated_signature example_env (''order_1'' @ ''|'' @ ''pay_2'') =
       Some ''42b36d6ca2796f41479c0970a1439425646c6b772a81e05457de24c69b76a61f''"
    by (simp add: generated_signature_def encode_def example_env_def known_digests_def)
  have h0: "(0::nat) < length ?s" and h1: "(1::nat) < length ?s" by simp_all
  have p0: "payment_status (?s ! 0) = ''pending''"
    by (simp add: example_doc_def with_created_at_def Registration_def)
  have p1: "payment_status (?s ! 1) = ''completed''"
    by (simp add: example_paid_doc_def)
  have k1: "razorpay_key_id example_env \<noteq> []" by (simp add: example_env_def)
  have k2: "razorpay_key_secret example_env \<noteq> []" by (simp add: example_env_def)
  have k3: "store_reachable example_env" by (simp add: example_env_def)
  have fd: "find (\<lambda>d. reg_id d = ''r1'') ?s = Some example_doc"
    by (simp add: example_doc_def with_created_at_def Registration_def)
  have "api_router example_env ?req ?s ! 0 =
      example_doc\<lparr>payment_status := ''completed'', payment_id := Some ''pay_1''\<rparr>"
    using dg1 k1 k2 k3
    by (simp add: snd_verify_payment razorpay_client_def example_doc_def with_created_at_def
          Registration_def)
  then have ch: "payment_status (api_router example_env ?req ?s ! 0) \<noteq> payment_status (?s ! 0)"
    using p0 by simp
  note inst = payment_status_transitions [where s = "?s" and e = example_env and req = "?req"
      and rid = "''r1''" and d = example_doc and oid = "''order_1''" and ?pid1.0 = "''pay_1''"
      and ?pid2.0 = "''pay_2''"
      and ?sig1.0 = "''15e54fc994958b03e5d550900551f2224e4bc3f71ed65272552271e2d4c1b713''"
      and ?sig2.0 = "''42b36d6ca2796f41479c0970a1439425646c6b772a81e05457de24c69b76a61f''"
      and steps = "[(example_env, PostVerifyPayment (PaymentVerification ''order_1'' ''pay_1'' ''forged'' ''r2'')),
            (example_env, PostCreateOrder (OrderCreate 500000 ''INR'' ''r2'')),
            (example_env, PostRegistration ''r2'' example_now example_input),
            (example_env, GetRegistration ''r2'')]"]
  from inst h0 ch have c0: "payment_status (api_router example_env ?req ?s ! 0) = ''completed''"
    by blast
  from inst h1 p1 have c1: "payment_status (api_router example_env ?req ?s ! 1) = ''completed''"
    by blast
  from inst h1 p1 have c2: "payment_status
        (foldl (\<lambda>t (e', r). api_router e' r t) ?s
           [(example_env, PostVerifyPayment (PaymentVerification ''order_1'' ''pay_1'' ''forged'' ''r2'')),
            (example_env, PostCreateOrder (OrderCreate 500000 ''INR'' ''r2'')),
            (example_env, PostRegistration ''r2'' example_now example_input),
            (example_env, GetRegistration ''r2'')] ! 1) = ''completed''"
    by blast
  from inst k1 k2 k3 dg1 dg2 fd have c3: "find (\<lambda>d. reg_id d = ''r1'')
        (snd (verify_payment example_env
           (PaymentVerification ''order_1'' ''pay_1''
              ''15e54fc994958b03e5d550900551f2224e4bc3f71ed65272552271e2d4c1b713'' ''r1'')
           ?s)) =
       Some (example_doc\<lparr>payment_status := ''completed'', payment_id := Some ''pay_1''\<rparr>)
   \<and> fst (verify_payment example_env
           (PaymentVerification ''order_1'' ''pay_2''
              ''42b36d6ca2796f41479c0970a1439425646c6b772a81e05457de24c69b76a61f'' ''r1'')
           (snd (verify_payment example_env
              (PaymentVerification ''order_1'' ''pay_1''
                 ''15e54fc994958b03e5d550900551f2224e4bc3f71ed65272552271e2d4c1b713'' ''r1'')
              ?s))) =
       Inr [(''status'', ''success''), (''message'', ''Payment verified successfully'')]
   \<and> find (\<lambda>d. reg_id d = ''r1'')
        (snd (verify_payment example_env
           (PaymentVerification ''order_1'' ''pay_2''
              ''42b36d6ca2796f41479c0970a1439425646c6b772a81e05457de24c69b76a61f'' ''r1'')
           (snd (verify_payment example_env
              (PaymentVerification ''order_1'' ''pay_1''
                 ''15e54fc994958b03e5d550900551f2224e4bc3f71ed65272552271e2d4c1b713'' ''r1'')
              ?s)))) =
       Some (example_doc\<lparr>payment_status := ''completed'', payment_id := Some ''pay_2''\<rparr>)"
    by blast
  show ?thesis using h0 h1 p0 p1 c0 c1 c2 c3 k1 k2 k3 dg1 dg2 fd by blast
qed

text \<open>
Claim C9. A correctly signed verification request succeeds and completes the
  registration it names whatever order id that registration has stored (\<open>stored\<close> is
  arbitrary: \<open>None\<close>, the order id of the request or another one), and leaves that
  stored order id as it is. The answer is the same on every collection: the handler
  reads nothing from the collection.
\<close>

theorem verify_payment_ignores_stored_order:
  assumes "razorpay_key_id e \<noteq> []" and "razorpay_key_secret e \<noteq> []"
    and "store_reachable e"
    and "generated_signature e (oid @ ''|'' @ pid) = Some sig"
    and "find (\<lambda>d. reg_id d = rid) s = Some d"
    and "order_id d = stored"
  shows "fst (verify_payment e (PaymentVerification oid pid sig rid) s) =
           Inr [(''status'', ''success''), (''message'', ''Payment verified successfully'')]
       \<and> find (\<lambda>d. reg_id d = rid)
           (snd (verify_payment e (PaymentVerification oid pid sig rid) s)) =
           Some (d\<lparr>payment_status := ''completed'', payment_id := Some pid\<rparr>)
       \<and> order_id (d\<lparr>payment_status := ''completed'', payment_id := Some pid\<rparr>) = stored
       \<and> fst (verify_payment e (PaymentVerification oid pid sig rid) s') =
           fst (verify_payment e (PaymentVerification oid pid sig rid) s)"
  using assms
  by (simp add: fst_verify_payment)
     (simp add: verify_payment_def razorpay_client_def update_one_def find_update_first)

text \<open>
The theorem at a registration whose stored order is \<open>''order_9''\<close>, completed by a
  signature for \<open>''order_1''\<close>.
\<close>

theorem verify_payment_ignores_stored_order_witness:
  "razorpay_key_id example_env \<noteq> [] \<and> razorpay_key_secret example_env \<noteq> []
   \<and> store_reachable example_env
   \<and> generated_signature example_env (''order_1'' @ ''|'' @ ''pay_1'') =
       Some ''15e54fc994958b03e5d550900551f2224e4bc3f71ed65272552271e2d4c1b713''
   \<and> find (\<lambda>d. reg_id d = ''r1'') [example_doc\<lparr>order_id := Some ''order_9''\<rparr>] =
       Some (example_doc\<lparr>order_id := Some ''order_9''\<rparr>)
   \<and> order_id (example_doc\<lparr>order_id := Some ''order_9''\<rparr>) = Some ''order_9''
   \<and> fst (verify_payment example_env
        (PaymentVerification ''order_1'' ''pay_1''
           ''15e54fc994958b03e5d550900551f2224e4bc3f71ed65272552271e2d4c1b713'' ''r1'')
        [example_doc\<lparr>order_id := Some ''order_9''\<rparr>]) =
       Inr [(''status'', ''success''), (''message'', ''Payment verified successfully'')]
   \<and> find (\<lambda>d. reg_id d = ''r1'')
        (snd (verify_payment example_env
           (PaymentVerification ''order_1'' ''pay_1''
              ''15e54fc994958b03e5d550900551f2224e4bc3f71ed65272552271e2d4c1b713'' ''r1'')
           [example_doc\<lparr>order_id := Some ''order_9''\<rparr>])) =
       Some (example_doc\<lparr>order_id := Some ''order_9'', payment_status := ''completed'',
                         payment_id := Some ''pay_1''\<rparr>)"
proof -
  have h1: "razorpay_key_id example_env \<noteq> []" by (simp add: example_env_def)
  have h2: "razorpay_key_secret example_env \<noteq> []" by (simp add: example_env_def)
  have h3: "store_reachable example_env" by (simp add: example_env_def)
  have h4: "generated_signature example_env (''order_1'' @ ''|'' @ ''pay_1'') =
       Some ''15e54fc994958b03e5d550900551f2224e4bc3f71ed65272552271e2d4c1b713''"
    by (simp add: generated_signature_def encode_def example_env_def known_digests_def)
  have h5: "find (\<lambda>d. reg_id d = ''r1'') [example_doc\<lparr>order_id := Some ''order_9''\<rparr>] =
       Some (example_doc\<lparr>order_id := Some ''order_9''\<rparr>)"
    by (simp add: example_doc_def with_created_at_def Registration_def)
  have h6: "order_id (example_doc\<lparr>order_id := Some ''order_9''\<rparr>) = Some ''order_9''"
    by simp
  show ?thesis
    using h1 h2 h3 h4 h5 h6 verify_payment_ignores_stored_order [OF h1 h2 h3 h4 h5 h6]
    by simp
qed

text \<open>
Claim C10. A correctly signed verification request that names a registration
  identifier not in the collection is answered with success, and the collection is
  returned unchanged.
\<close>

theorem verify_payment_unknown_registration:
  assumes "razorpay_key_id e \<noteq> []" and "razorpay_key_secret e \<noteq> []"
    and "store_reachable e"
    and "generated_signature e (oid @ ''|'' @ pid) = Some sig"
    and "rid \<notin> reg_id ` set s"
  shows "verify_payment e (PaymentVerification oid pid sig rid) s =
           (Inr [(''status'', ''success''), (''message'', ''Payment verified successfully'')], s)"
  using assms
  by (simp add: verify_payment_def razorpay_client_def update_one_def update_first_absent)

text \<open>
The theorem at the example deployment and the identifier \<open>''no-such-id''\<close>.
\<close>

theorem verify_payment_unknown_registration_witness:
  "razorpay_key_id example_env \<noteq> [] \<and> razorpay_key_secret example_env \<noteq> []
   \<and> store_reachable example_env
   \<and> generated_signature example_env (''order_1'' @ ''|'' @ ''pay_1'') =
       Some ''15e54fc994958b03e5d550900551f2224e4bc3f71ed65272552271e2d4c1b713''
   \<and> ''no-such-id'' \<notin> reg_id ` set [example_doc]
   \<and> verify_payment example_env
        (PaymentVerification ''order_1'' ''pay_1''
           ''15e54fc994958b03e5d550900551f2224e4bc3f71ed65272552271e2d4c1b713'' ''no-such-id'')
        [example_doc] =
       (Inr [(''status'', ''success''), (''message'', ''Payment verified successfully'')],
        [example_doc])"
proof -
  have h1: "razorpay_key_id example_env \<noteq> []" by (simp add: example_env_def)
  have h2: "razorpay_key_secret example_env \<noteq> []" by (simp add: example_env_def)
  have h3: "store_reachable example_env" by (simp add: example_env_def)
  have h4: "generated_signature example_env (''order_1'' @ ''|'' @ ''pay_1'') =
       Some ''15e54fc994958b03e5d550900551f2224e4bc3f71ed65272552271e2d4c1b713''"
    by (simp add: generated_signature_def encode_def example_env_def known_digests_def)
  have h5: "''no-such-id'' \<notin> reg_id ` set [example_doc]"
    by (simp add: example_doc_def with_created_at_def Registration_def)
  show ?thesis
    using h1 h2 h3 h4 h5 verify_payment_unknown_registration [OF h1 h2 h3 h4 h5] by blast
qed

end
